theory Spec2Isabelle
  imports Main "HOL-Library.Code_Target_Nat"
begin

section \<open>Data model\<close>

text \<open>
  The documents of the two collections, after the Mongoose schemas \<^verbatim>\<open>productSchema\<close> and
  \<^verbatim>\<open>orderSchema\<close>. Only the paths read or written by the order routes are kept.
  A JavaScript Number is modelled as an \<^typ>\<open>int\<close> (amounts and quantities are whole
  numbers, in the range where double arithmetic is exact), an ObjectId as a \<^typ>\<open>nat\<close>,
  a Date as a \<^typ>\<open>nat\<close> (milliseconds), and an unset path as \<^const>\<open>None\<close>.
\<close>

datatype order_status = Pending | Confirmed | Processing | Shipped | Delivered | Cancelled

datatype payment_method = Cash | Card | BankTransfer | Stripe

datatype payment_status = PayPending | Paid | Failed | Refunded

record product =
  p_id :: nat
  p_name :: string
  p_price :: int
  p_images :: "string list"
  stock_quantity :: int
  stock_trackInventory :: bool
  sales_count :: int
  sales_revenue :: int
  p_isActive :: bool

record order_item =
  oi_product :: nat
  oi_name :: string
  oi_price :: int
  oi_quantity :: int
  oi_image :: string
  oi_variant :: "string option"

record pricing =
  subtotal :: int
  shipping :: int
  tax :: int
  discount :: int
  total :: int

record payment =
  pay_method :: payment_method
  pay_status :: payment_status
  pay_transactionId :: "string option"
  pay_accountNumber :: "string option"

record shipping_info =
  trackingNumber :: "string option"
  estimatedDelivery :: "nat option"
  shippedAt :: "nat option"
  deliveredAt :: "nat option"

record order =
  o_id :: nat
  o_orderNumber :: string
  o_user :: nat
  o_items :: "order_item list"
  o_shippingAddress :: string
  o_billingAddress :: string
  o_pricing :: pricing
  o_payment :: payment
  o_status :: order_status
  o_shipping :: shipping_info
  o_notes :: "string option"
  o_cancelledAt :: "nat option"
  o_isTest :: bool

text \<open>The durable store: the two collections, each a list of documents.\<close>

record store =
  products :: "product list"
  orders :: "order list"

text \<open>
  What a handler reads from its environment: the clock (\<^verbatim>\<open>Date.now()\<close> and the fields of
  \<^verbatim>\<open>new Date()\<close>), the six characters of \<^verbatim>\<open>Math.random().toString(36).substring(2, 8)\<close>,
  the ObjectId the driver gives a new document, and whether a query of the order-number
  hook throws.
\<close>

record env =
  e_now :: nat
  e_fullYear :: nat
  e_month :: nat
  e_date :: nat
  e_random :: string
  e_newId :: nat
  e_queryThrows :: bool

text \<open>
  The request bodies, as parsed JSON. An absent member is \<^const>\<open>None\<close>; an address is kept
  as one string, and the quantity of an item is a number.
\<close>

record item_req =
  it_product :: "nat option"
  it_quantity :: int
  it_variant :: "string option"

record pricing_req =
  rq_subtotal :: "int option"
  rq_shipping :: "int option"
  rq_tax :: "int option"
  rq_discount :: "int option"
  rq_total :: "int option"

record payment_req =
  rq_method :: "string option"
  rq_payStatus :: "string option"
  rq_transactionId :: "string option"
  rq_accountNumber :: "string option"

record create_req =
  rq_items :: "item_req list"
  rq_shippingAddress :: string
  rq_billingAddress :: "string option"
  rq_pricing :: pricing_req
  rq_payment :: "payment_req option"
  rq_notes :: "string option"
  rq_isTest :: bool

text \<open>
  In the body of a status update, \<^verbatim>\<open>estimatedDelivery\<close> is the date that \<^verbatim>\<open>new Date\<close> makes
  of the member when the member is truthy.
\<close>

record status_req =
  rq_status :: string
  rq_trackingNumber :: "string option"
  rq_estimatedDelivery :: "nat option"

text \<open>
  The answers of the handlers that are not the order itself: the 400 and 404 answers, one
  constructor for each message, and the 500 answer of a \<^verbatim>\<open>catch\<close> block.
\<close>

datatype error =
    ValidationError
  | InvalidPaymentMethod
  | MissingTransactionId
  | MissingProductId
  | ProductNotFound nat
  | ProductUnavailable nat
  | InsufficientStock nat
  | InvalidStatus
  | NotFound
  | ServerError

section \<open>JavaScript idioms\<close>

text \<open>\<^verbatim>\<open>x || d\<close> on a number that may be absent: absent and 0 are both falsy.\<close>

definition num_or :: "int option \<Rightarrow> int \<Rightarrow> int" where
  "num_or x d = (case x of None \<Rightarrow> d | Some v \<Rightarrow> if v = 0 then d else v)"

text \<open>Truthiness of a string that may be absent: absent and the empty string are falsy.\<close>

definition truthy :: "string option \<Rightarrow> bool" where
  "truthy x = (case x of None \<Rightarrow> False | Some s \<Rightarrow> s \<noteq> [])"

definition digit_char :: "nat \<Rightarrow> char" where
  "digit_char d = ''0123456789'' ! (d mod 10)"

text \<open>\<^verbatim>\<open>String(n)\<close> for a non-negative integer.\<close>

function string_of_nat :: "nat \<Rightarrow> string" where
  "string_of_nat n =
     (if n < 10 then [digit_char n] else string_of_nat (n div 10) @ [digit_char (n mod 10)])"
  by pat_completeness auto
termination
  by (relation "measure id") auto

declare string_of_nat.simps [simp del]

text \<open>\<^verbatim>\<open>s.padStart(n, '0')\<close>.\<close>

definition padStart :: "nat \<Rightarrow> string \<Rightarrow> string" where
  "padStart n s = replicate (n - length s) (CHR ''0'') @ s"

text \<open>
  The white space that \<^verbatim>\<open>trim\<close> strips, among the ASCII characters. A \<^typ>\<open>char\<close> is a
  byte, and the white space of \<^verbatim>\<open>trim\<close> beyond ASCII (U+00A0, U+FEFF, U+2028 and the
  like) is not modelled: an order number made only of such characters counts as set here,
  while the hook would replace it. Neither handler hands the hook an order number of its
  own making; it sees the empty one of a new document or one it generated before.
\<close>

definition is_space :: "char \<Rightarrow> bool" where
  "is_space c = (c = CHR '' '' \<or> c = CHR 0x09 \<or> c = CHR 0x0A \<or> c = CHR 0x0B
                 \<or> c = CHR 0x0C \<or> c = CHR 0x0D)"

text \<open>\<^verbatim>\<open>!s || s.trim() === ''\<close>.\<close>

definition blank :: "string \<Rightarrow> bool" where
  "blank s = list_all is_space s"

section \<open>Pricing\<close>

text \<open>
  The object \<^verbatim>\<open>finalPricing\<close> of the creation handler; \<open>sub\<close> is the handler's local
  \<^verbatim>\<open>subtotal\<close>, the sum over the items of price times quantity.
\<close>

definition finalPricing :: "pricing_req \<Rightarrow> int \<Rightarrow> pricing" where
  "finalPricing pr sub =
     \<lparr> subtotal = num_or (rq_subtotal pr) sub,
       shipping = num_or (rq_shipping pr) 0,
       tax = num_or (rq_tax pr) 0,
       discount = num_or (rq_discount pr) 0,
       total = num_or (rq_total pr)
                 (sub + num_or (rq_shipping pr) 0 + num_or (rq_tax pr) 0
                    - num_or (rq_discount pr) 0) \<rparr>"

section \<open>Order numbers\<close>

definition prefix_of :: "bool \<Rightarrow> string" where
  "prefix_of isTest = (if isTest then ''TEST'' else ''ORD'')"

text \<open>\<^verbatim>\<open>`${year}${month}${day}`\<close> with month and day padded to two digits.\<close>

definition date_part :: "env \<Rightarrow> string" where
  "date_part e =
     string_of_nat (e_fullYear e) @ padStart 2 (string_of_nat (e_month e + 1))
       @ padStart 2 (string_of_nat (e_date e))"

text \<open>\<^verbatim>\<open>`${prefix}-${year}${month}${day}-${String(n).padStart(5, '0')}`\<close>.\<close>

definition numbered :: "bool \<Rightarrow> env \<Rightarrow> nat \<Rightarrow> string" where
  "numbered isTest e n =
     prefix_of isTest @ ''-'' @ date_part e @ ''-'' @ padStart 5 (string_of_nat n)"

text \<open>The value taken when the loop gives up: the date part, then \<^verbatim>\<open>Date.now()\<close>.\<close>

definition exhausted_number :: "bool \<Rightarrow> env \<Rightarrow> string" where
  "exhausted_number isTest e =
     prefix_of isTest @ ''-'' @ date_part e @ ''-'' @ string_of_nat (e_now e)"

text \<open>The value of the \<^verbatim>\<open>catch\<close> block: \<^verbatim>\<open>Date.now()\<close>, then the random characters.\<close>

definition catch_number :: "bool \<Rightarrow> env \<Rightarrow> string" where
  "catch_number isTest e =
     prefix_of isTest @ ''-'' @ string_of_nat (e_now e) @ ''-'' @ e_random e"

text \<open>
  The \<^verbatim>\<open>while\<close> loop of the hook. \<open>taken\<close> holds the order numbers of the other orders
  (\<^verbatim>\<open>findOne({ orderNumber, _id: { $ne: this._id } })\<close>), \<open>count\<close> is
  \<^verbatim>\<open>countDocuments()\<close>; the loop state is \<open>counter\<close> and \<open>orderNumber\<close>.
\<close>

function probe :: "bool \<Rightarrow> env \<Rightarrow> string list \<Rightarrow> nat \<Rightarrow> nat \<Rightarrow> string \<Rightarrow> string" where
  "probe isTest e taken count counter orderNumber =
     (if orderNumber \<in> set taken then
        (if counter + 1 > 100 then exhausted_number isTest e
         else probe isTest e taken count (counter + 1) (numbered isTest e (count + 1 + counter)))
      else orderNumber)"
  by pat_completeness auto
termination
  by (relation "measure (\<lambda>(isTest, e, taken, count, counter, orderNumber). 101 - counter)") auto

declare probe.simps [simp del]

definition other_numbers :: "order list \<Rightarrow> nat \<Rightarrow> string list" where
  "other_numbers os i = map o_orderNumber (filter (\<lambda>x. o_id x \<noteq> i) os)"

text \<open>The \<^verbatim>\<open>try\<close> block of the hook.\<close>

definition generate_number :: "env \<Rightarrow> order list \<Rightarrow> order \<Rightarrow> string" where
  "generate_number e os this =
     probe (o_isTest this) e (other_numbers os (o_id this)) (length os) 1
       (numbered (o_isTest this) e (length os + 1))"

text \<open>\<^verbatim>\<open>orderSchema.pre('save')\<close>: a number is generated only when none is set.\<close>

definition pre_save :: "env \<Rightarrow> order list \<Rightarrow> order \<Rightarrow> order" where
  "pre_save e os this =
     (if blank (o_orderNumber this) then
        this\<lparr>o_orderNumber :=
          (if e_queryThrows e then catch_number (o_isTest this) e
           else generate_number e os this)\<rparr>
      else this)"

section \<open>The collections\<close>

text \<open>\<^verbatim>\<open>Product.findById\<close> and \<^verbatim>\<open>Order.findById\<close>.\<close>

definition findById :: "product list \<Rightarrow> nat \<Rightarrow> product option" where
  "findById ps i = List.find (\<lambda>p. p_id p = i) ps"

definition findOrder :: "order list \<Rightarrow> nat \<Rightarrow> order option" where
  "findOrder os i = List.find (\<lambda>x. o_id x = i) os"

text \<open>
  \<^verbatim>\<open>product.save()\<close> after the handlers have changed \<^verbatim>\<open>stock.quantity\<close>,
  \<^verbatim>\<open>sales.count\<close> and \<^verbatim>\<open>sales.revenue\<close>. Mongoose validates the modified paths before
  it writes; the only validator on them is \<^verbatim>\<open>min: 0\<close> of \<^verbatim>\<open>stock.quantity\<close>. A failed
  validation rejects the promise (\<^const>\<open>None\<close>) and writes nothing; otherwise the document
  with this \<^verbatim>\<open>_id\<close> is replaced.
\<close>

definition product_save :: "product list \<Rightarrow> product \<Rightarrow> product list option" where
  "product_save ps p =
     (if stock_quantity p < 0 then None
      else Some (map (\<lambda>q. if p_id q = p_id p then p else q) ps))"

text \<open>
  \<^verbatim>\<open>Order.create\<close>: validation of the new document (\<^verbatim>\<open>min: 1\<close> of an item's quantity; the
  other validated paths are set by the handler to values that pass), the pre-save hook,
  then the insertion, which the unique indexes on \<^verbatim>\<open>_id\<close> and \<^verbatim>\<open>orderNumber\<close> reject
  for a value that another document has. \<^const>\<open>None\<close> is a rejected promise.
\<close>

definition Order_create :: "env \<Rightarrow> order list \<Rightarrow> order \<Rightarrow> (order \<times> order list) option" where
  "Order_create e os doc =
     (if \<not> list_all (\<lambda>i. 1 \<le> oi_quantity i) (o_items doc) then None
      else
        let this = pre_save e os doc in
        if o_id this \<in> set (map o_id os) \<or> o_orderNumber this \<in> set (map o_orderNumber os)
        then None
        else Some (this, os @ [this]))"

text \<open>\<^verbatim>\<open>order.save()\<close> of a document that was read from the collection.\<close>

definition order_save :: "env \<Rightarrow> order list \<Rightarrow> order \<Rightarrow> order \<times> order list" where
  "order_save e os doc =
     (let this = pre_save e os doc
      in (this, map (\<lambda>x. if o_id x = o_id this then this else x) os))"

section \<open>POST /api/orders\<close>

definition validPaymentMethods :: "string list" where
  "validPaymentMethods = [''cash'', ''card'', ''bank_transfer'', ''stripe'']"

definition method_of :: "string \<Rightarrow> payment_method" where
  "method_of s =
     (if s = ''card'' then Card else if s = ''bank_transfer'' then BankTransfer
      else if s = ''stripe'' then Stripe else Cash)"

text \<open>\<^verbatim>\<open>payment?.method\<close>, \<^verbatim>\<open>payment?.transactionId\<close>, \<^verbatim>\<open>payment?.accountNumber\<close>.\<close>

definition payment_member :: "(payment_req \<Rightarrow> string option) \<Rightarrow> payment_req option \<Rightarrow> string option" where
  "payment_member f p = (case p of None \<Rightarrow> None | Some r \<Rightarrow> f r)"

text \<open>A member spread into the document only when it is truthy.\<close>

definition when_truthy :: "string option \<Rightarrow> string option" where
  "when_truthy x = (if truthy x then x else None)"

text \<open>
  The first loop of the handler: it reads the products and builds \<^verbatim>\<open>subtotal\<close> and
  \<^verbatim>\<open>orderItems\<close>, and returns at the first item that fails a check.
\<close>

fun validate_items ::
  "product list \<Rightarrow> bool \<Rightarrow> item_req list \<Rightarrow> int \<Rightarrow> order_item list
    \<Rightarrow> error + (int \<times> order_item list)" where
  "validate_items ps isTest [] sub orderItems = Inr (sub, orderItems)"
| "validate_items ps isTest (item # items) sub orderItems =
     (case it_product item of
        None \<Rightarrow> Inl MissingProductId
      | Some i \<Rightarrow>
         (case findById ps i of
            None \<Rightarrow> Inl (ProductNotFound i)
          | Some product \<Rightarrow>
              if \<not> p_isActive product then Inl (ProductUnavailable i)
              else if \<not> isTest \<and> stock_trackInventory product
                      \<and> stock_quantity product < it_quantity item
              then Inl (InsufficientStock i)
              else validate_items ps isTest items
                     (sub + p_price product * it_quantity item)
                     (orderItems @
                       [\<lparr> oi_product = p_id product, oi_name = p_name product,
                          oi_price = p_price product, oi_quantity = it_quantity item,
                          oi_image = (case p_images product of [] \<Rightarrow> [] | u # _ \<Rightarrow> u),
                          oi_variant = when_truthy (it_variant item) \<rparr>])))"

text \<open>
  The second loop of the handler, after the order is created. The flag is False when a
  \<^verbatim>\<open>product.save()\<close> was rejected: the loop stops there, and what it saved before stays.
\<close>

fun update_stock :: "product list \<Rightarrow> item_req list \<Rightarrow> bool \<times> product list" where
  "update_stock ps [] = (True, ps)"
| "update_stock ps (item # items) =
     (case (case it_product item of None \<Rightarrow> None | Some i \<Rightarrow> findById ps i) of
        None \<Rightarrow> update_stock ps items
      | Some product \<Rightarrow>
          if stock_trackInventory product then
            (case product_save ps
                    (product\<lparr> stock_quantity := stock_quantity product - it_quantity item,
                              sales_count := sales_count product + it_quantity item,
                              sales_revenue := sales_revenue product
                                                 + p_price product * it_quantity item \<rparr>) of
               None \<Rightarrow> (False, ps)
             | Some ps' \<Rightarrow> update_stock ps' items)
          else update_stock ps items)"

text \<open>The document handed to \<^verbatim>\<open>Order.create\<close>; the paths it leaves out take the schema's defaults.\<close>

definition new_order :: "env \<Rightarrow> nat \<Rightarrow> create_req \<Rightarrow> int \<Rightarrow> order_item list \<Rightarrow> order" where
  "new_order e user req sub orderItems =
     \<lparr> o_id = e_newId e,
       o_orderNumber = [],
       o_user = user,
       o_items = orderItems,
       o_shippingAddress = rq_shippingAddress req,
       o_billingAddress =
         (if truthy (rq_billingAddress req) then the (rq_billingAddress req)
          else rq_shippingAddress req),
       o_pricing = finalPricing (rq_pricing req) sub,
       o_payment =
         \<lparr> pay_method =
             (if truthy (payment_member rq_method (rq_payment req))
              then method_of (the (payment_member rq_method (rq_payment req))) else Cash),
           pay_status = PayPending,
           pay_transactionId = when_truthy (payment_member rq_transactionId (rq_payment req)),
           pay_accountNumber = when_truthy (payment_member rq_accountNumber (rq_payment req)) \<rparr>,
       o_status = Pending,
       o_shipping = \<lparr> trackingNumber = None, estimatedDelivery = None,
                      shippedAt = None, deliveredAt = None \<rparr>,
       o_notes = rq_notes req,
       o_cancelledAt = None,
       o_isTest = rq_isTest req \<rparr>"

text \<open>
  The handler. Its answer is the order (201) or an error; the store it leaves is returned
  with it. A rejected promise inside the \<^verbatim>\<open>try\<close> block is the 500 answer of the
  \<^verbatim>\<open>catch\<close> block, which undoes nothing.
\<close>

definition create_order :: "env \<Rightarrow> nat \<Rightarrow> store \<Rightarrow> create_req \<Rightarrow> (error + order) \<times> store" where
  "create_order e user st req =
     (if rq_items req = [] \<or> rq_shippingAddress req = []
         \<or> (case rq_total (rq_pricing req) of None \<Rightarrow> True | Some t \<Rightarrow> t < 0)
      then (Inl ValidationError, st)
      else if truthy (payment_member rq_method (rq_payment req))
              \<and> the (payment_member rq_method (rq_payment req)) \<notin> set validPaymentMethods
      then (Inl InvalidPaymentMethod, st)
      else if payment_member rq_method (rq_payment req) = Some ''bank_transfer''
              \<and> \<not> truthy (payment_member rq_transactionId (rq_payment req))
      then (Inl MissingTransactionId, st)
      else
        (case validate_items (products st) (rq_isTest req) (rq_items req) 0 [] of
           Inl err \<Rightarrow> (Inl err, st)
         | Inr (sub, orderItems) \<Rightarrow>
            (case Order_create e (orders st) (new_order e user req sub orderItems) of
               None \<Rightarrow> (Inl ServerError, st)
             | Some (order, os) \<Rightarrow>
                (case update_stock (products st) (rq_items req) of
                   (False, ps) \<Rightarrow> (Inl ServerError, \<lparr> products = ps, orders = os \<rparr>)
                 | (True, ps) \<Rightarrow> (Inr order, \<lparr> products = ps, orders = os \<rparr>)))))"

section \<open>PUT /api/orders/:id/status\<close>

definition parse_status :: "string \<Rightarrow> order_status option" where
  "parse_status s =
     (if s = ''pending'' then Some Pending
      else if s = ''confirmed'' then Some Confirmed
      else if s = ''processing'' then Some Processing
      else if s = ''shipped'' then Some Shipped
      else if s = ''delivered'' then Some Delivered
      else if s = ''cancelled'' then Some Cancelled
      else None)"

text \<open>
  The loop of the cancellation block, over the items of the order. The flag is False when
  a \<^verbatim>\<open>product.save()\<close> was rejected.
\<close>

fun restore_stock :: "product list \<Rightarrow> order_item list \<Rightarrow> bool \<times> product list" where
  "restore_stock ps [] = (True, ps)"
| "restore_stock ps (item # items) =
     (case findById ps (oi_product item) of
        None \<Rightarrow> restore_stock ps items
      | Some product \<Rightarrow>
          if stock_trackInventory product then
            (case product_save ps
                    (product\<lparr> stock_quantity := stock_quantity product + oi_quantity item,
                              sales_count := sales_count product - oi_quantity item,
                              sales_revenue := sales_revenue product
                                                 - oi_price item * oi_quantity item \<rparr>) of
               None \<Rightarrow> (False, ps)
             | Some ps' \<Rightarrow> restore_stock ps' items)
          else restore_stock ps items)"

text \<open>The assignments to the order before the cancellation block.\<close>

definition set_status :: "env \<Rightarrow> order_status \<Rightarrow> order \<Rightarrow> order" where
  "set_status e status order =
     (let o1 = order\<lparr>o_status := status\<rparr>;
          o2 = (if status = Shipped \<and> shippedAt (o_shipping o1) = None
                then o1\<lparr>o_shipping := (o_shipping o1)\<lparr>shippedAt := Some (e_now e)\<rparr>\<rparr> else o1)
      in (if status = Delivered \<and> deliveredAt (o_shipping o2) = None
          then o2\<lparr>o_shipping := (o_shipping o2)\<lparr>deliveredAt := Some (e_now e)\<rparr>\<rparr> else o2))"

text \<open>The assignments after the cancellation block.\<close>

definition set_tracking :: "status_req \<Rightarrow> order \<Rightarrow> order" where
  "set_tracking req order =
     (let o1 = (if truthy (rq_trackingNumber req)
                then order\<lparr>o_shipping := (o_shipping order)\<lparr>trackingNumber := rq_trackingNumber req\<rparr>\<rparr>
                else order)
      in (case rq_estimatedDelivery req of
            None \<Rightarrow> o1
          | Some d \<Rightarrow> o1\<lparr>o_shipping := (o_shipping o1)\<lparr>estimatedDelivery := Some d\<rparr>\<rparr>))"

definition update_status :: "env \<Rightarrow> store \<Rightarrow> nat \<Rightarrow> status_req \<Rightarrow> (error + order) \<times> store" where
  "update_status e st i req =
     (case parse_status (rq_status req) of
        None \<Rightarrow> (Inl InvalidStatus, st)
      | Some status \<Rightarrow>
         (case findOrder (orders st) i of
            None \<Rightarrow> (Inl NotFound, st)
          | Some found \<Rightarrow>
             let order = set_status e status found in
             if status = Cancelled \<and> o_cancelledAt order = None then
               (case restore_stock (products st) (o_items order) of
                  (False, ps) \<Rightarrow> (Inl ServerError, st\<lparr>products := ps\<rparr>)
                | (True, ps) \<Rightarrow>
                    (case order_save e (orders st)
                            (set_tracking req (order\<lparr>o_cancelledAt := Some (e_now e)\<rparr>)) of
                       (saved, os) \<Rightarrow> (Inr saved, \<lparr> products = ps, orders = os \<rparr>)))
             else
               (case order_save e (orders st) (set_tracking req order) of
                  (saved, os) \<Rightarrow> (Inr saved, st\<lparr>orders := os\<rparr>))))"

section \<open>Vocabulary of the properties\<close>

text \<open>What one request item adds to the handler's \<^verbatim>\<open>subtotal\<close>, and the sum over a cart.\<close>

definition line_total :: "product list \<Rightarrow> item_req \<Rightarrow> int" where
  "line_total ps item =
     (case it_product item of
        None \<Rightarrow> 0
      | Some i \<Rightarrow> (case findById ps i of None \<Rightarrow> 0 | Some p \<Rightarrow> p_price p * it_quantity item))"

definition items_subtotal :: "product list \<Rightarrow> item_req list \<Rightarrow> int" where
  "items_subtotal ps items = sum_list (map (line_total ps) items)"

text \<open>The quantity a cart asks of one product, over all the items that name it.\<close>

definition requested :: "item_req list \<Rightarrow> nat \<Rightarrow> int" where
  "requested items i =
     sum_list (map it_quantity (filter (\<lambda>item. it_product item = Some i) items))"

text \<open>The sale of \<open>n\<close> units written on a product: nothing for an untracked product.\<close>

definition sell :: "int \<Rightarrow> product \<Rightarrow> product" where
  "sell n p =
     (if stock_trackInventory p
      then p\<lparr> stock_quantity := stock_quantity p - n,
              sales_count := sales_count p + n,
              sales_revenue := sales_revenue p + p_price p * n \<rparr>
      else p)"

text \<open>
  What the items of an order give back to one product when the order is cancelled: the
  units, and the revenue at the prices captured on the items.
\<close>

definition returned :: "order_item list \<Rightarrow> nat \<Rightarrow> int" where
  "returned items i = sum_list (map oi_quantity (filter (\<lambda>item. oi_product item = i) items))"

definition refunded :: "order_item list \<Rightarrow> nat \<Rightarrow> int" where
  "refunded items i =
     sum_list (map (\<lambda>item. oi_price item * oi_quantity item)
                   (filter (\<lambda>item. oi_product item = i) items))"

text \<open>The return of \<open>n\<close> units and of the revenue \<open>r\<close> written on a product.\<close>

definition refund :: "int \<Rightarrow> int \<Rightarrow> product \<Rightarrow> product" where
  "refund n r p =
     (if stock_trackInventory p
      then p\<lparr> stock_quantity := stock_quantity p + n,
              sales_count := sales_count p - n,
              sales_revenue := sales_revenue p - r \<rparr>
      else p)"

text \<open>No tracked product has a negative stock.\<close>

definition stock_ok :: "product list \<Rightarrow> bool" where
  "stock_ok ps = list_all (\<lambda>p. stock_trackInventory p \<longrightarrow> 0 \<le> stock_quantity p) ps"

text \<open>The answers to a request that fails a business rule of the creation handler.\<close>

fun business_rule_error :: "error \<Rightarrow> bool" where
  "business_rule_error MissingProductId = True"
| "business_rule_error (ProductNotFound i) = True"
| "business_rule_error (ProductUnavailable i) = True"
| "business_rule_error (InsufficientStock i) = True"
| "business_rule_error MissingTransactionId = True"
| "business_rule_error err = False"

text \<open>The stores that the two writing handlers can leave, starting from \<open>init\<close>.\<close>

inductive reachable :: "store \<Rightarrow> store \<Rightarrow> bool" for init :: store where
  start: "reachable init init"
| created: "reachable init st \<Longrightarrow> reachable init (snd (create_order e user st req))"
| updated: "reachable init st \<Longrightarrow> reachable init (snd (update_status e st i req))"

section \<open>Example inputs\<close>

text \<open>The first of November 2026 (\<^verbatim>\<open>getMonth()\<close> is 10), and the ObjectId 7 for the new order.\<close>

definition ex_env :: env where
  "ex_env = \<lparr> e_now = 1793574000000, e_fullYear = 2026, e_month = 10, e_date = 1,
              e_random = ''k3x9qz'', e_newId = 7, e_queryThrows = False \<rparr>"

text \<open>An active, tracked product of price 10 with \<open>n\<close> units in stock, alone in a store.\<close>

definition ex_product :: "int \<Rightarrow> product" where
  "ex_product n = \<lparr> p_id = 1, p_name = ''lamp'', p_price = 10, p_images = [],
                    stock_quantity = n, stock_trackInventory = True,
                    sales_count = 0, sales_revenue = 0, p_isActive = True \<rparr>"

definition ex_store :: "int \<Rightarrow> store" where
  "ex_store n = \<lparr> products = [ex_product n], orders = [] \<rparr>"

text \<open>
  A request for \<open>q\<close> units of that product, paid by a method \<open>m\<close>, with the members of
  \<^verbatim>\<open>pricing\<close> other than the total all equal to \<open>z\<close>. The caller also sends a payment
  status, which the handler never reads.
\<close>

definition ex_req :: "bool \<Rightarrow> int \<Rightarrow> string \<Rightarrow> int option \<Rightarrow> int \<Rightarrow> create_req" where
  "ex_req isTest q m z t =
     \<lparr> rq_items = [\<lparr> it_product = Some 1, it_quantity = q, it_variant = None \<rparr>],
       rq_shippingAddress = ''Cairo'',
       rq_billingAddress = None,
       rq_pricing = \<lparr> rq_subtotal = z, rq_shipping = z, rq_tax = z,
                      rq_discount = z, rq_total = Some t \<rparr>,
       rq_payment = Some \<lparr> rq_method = Some m, rq_payStatus = Some ''paid'',
                            rq_transactionId = None, rq_accountNumber = None \<rparr>,
       rq_notes = None,
       rq_isTest = isTest \<rparr>"

text \<open>An order of user 3 for \<open>q\<close> units of that product, as the creation handler writes it.\<close>

definition ex_order :: "nat \<Rightarrow> string \<Rightarrow> order_status \<Rightarrow> int \<Rightarrow> bool \<Rightarrow> order" where
  "ex_order i number status q isTest =
     \<lparr> o_id = i, o_orderNumber = number, o_user = 3,
       o_items = [\<lparr> oi_product = 1, oi_name = ''lamp'', oi_price = 10, oi_quantity = q,
                     oi_image = [], oi_variant = None \<rparr>],
       o_shippingAddress = ''Cairo'', o_billingAddress = ''Cairo'',
       o_pricing = \<lparr> subtotal = 10 * q, shipping = 0, tax = 0, discount = 0, total = 20 \<rparr>,
       o_payment = \<lparr> pay_method = Card, pay_status = PayPending,
                      pay_transactionId = None, pay_accountNumber = None \<rparr>,
       o_status = status,
       o_shipping = \<lparr> trackingNumber = None, estimatedDelivery = None,
                       shippedAt = None, deliveredAt = None \<rparr>,
       o_notes = None, o_cancelledAt = None, o_isTest = isTest \<rparr>"

text \<open>
  A collection of 101 orders: the sequence numbers 102 to 201 of the day are taken, and so
  is the number that ends with the clock of \<^const>\<open>ex_env\<close>.
\<close>

definition ex_crowded :: "order list" where
  "ex_crowded =
     map (\<lambda>n. ex_order (100 + n) (numbered False ex_env n) Pending 2 False) [102..<202]
       @ [ex_order 1000 ''ORD-20261101-1793574000000'' Pending 2 False]"

text \<open>
  A cart that is not a test order and names that product on two lines, \<open>q\<close> units on each.
\<close>

definition ex_req_twice :: "int \<Rightarrow> create_req" where
  "ex_req_twice q =
     (ex_req False q ''card'' None 20)
       \<lparr> rq_items := [\<lparr> it_product = Some 1, it_quantity = q, it_variant = None \<rparr>,
                      \<lparr> it_product = Some 1, it_quantity = q, it_variant = None \<rparr>] \<rparr>"

definition ex_status_req :: "string \<Rightarrow> status_req" where
  "ex_status_req s = \<lparr> rq_status = s, rq_trackingNumber = None, rq_estimatedDelivery = None \<rparr>"

section \<open>Facts about the collections\<close>

lemma findById_Some_id: "findById ps i = Some p \<Longrightarrow> p_id p = i"
  unfolding findById_def by (induction ps) (auto split: if_splits)

lemma findById_replace:
  "findById (map (\<lambda>q. if p_id q = p_id p then p else q) ps) i =
     (if i = p_id p \<and> findById ps i \<noteq> None then Some p else findById ps i)"
  unfolding findById_def by (induction ps) auto

lemma product_save_find:
  "product_save ps p = Some ps' \<Longrightarrow>
   findById ps' i = (if i = p_id p \<and> findById ps i \<noteq> None then Some p else findById ps i)"
  by (auto simp: product_save_def findById_replace split: if_splits)

lemma product_save_ok:
  "stock_ok ps \<Longrightarrow> product_save ps p = Some ps' \<Longrightarrow> stock_ok ps'"
  by (auto simp: stock_ok_def product_save_def list_all_iff split: if_splits)

lemma pre_save_fields:
  "o_id (pre_save e os d) = o_id d" "o_status (pre_save e os d) = o_status d"
  "o_payment (pre_save e os d) = o_payment d" "o_pricing (pre_save e os d) = o_pricing d"
  "o_items (pre_save e os d) = o_items d" "o_cancelledAt (pre_save e os d) = o_cancelledAt d"
  "o_shipping (pre_save e os d) = o_shipping d" "o_isTest (pre_save e os d) = o_isTest d"
  by (simp_all add: pre_save_def)

lemma Order_create_Some:
  "Order_create e os d = Some (this, os') \<Longrightarrow> this = pre_save e os d \<and> os' = os @ [this]"
  by (auto simp: Order_create_def Let_def split: if_splits)

section \<open>Facts about the creation handler\<close>

lemma validate_items_subtotal:
  "validate_items ps t items sub acc = Inr (s, ois) \<Longrightarrow> s = sub + items_subtotal ps items"
proof (induction items arbitrary: sub acc)
  case Nil
  then show ?case by (simp add: items_subtotal_def)
next
  case (Cons item items)
  from Cons.prems show ?case
    by (auto simp: items_subtotal_def line_total_def split: option.splits if_splits
             dest!: Cons.IH)
qed

lemma create_order_Inr:
  assumes "create_order e u st req = (Inr order, st')"
  shows "\<exists>sub ois. validate_items (products st) (rq_isTest req) (rq_items req) 0 [] = Inr (sub, ois)
           \<and> order = pre_save e (orders st) (new_order e u req sub ois)
           \<and> orders st' = orders st @ [order]
           \<and> update_stock (products st) (rq_items req) = (True, products st')"
  using assms
  by (auto simp: create_order_def
           split: if_splits sum.splits option.splits prod.splits bool.splits
           dest!: Order_create_Some)

lemma create_order_added:
  assumes "create_order e u st req = (r, st')"
  shows "orders st' = orders st
         \<or> (\<exists>sub ois. orders st' =
               orders st @ [pre_save e (orders st) (new_order e u req sub ois)])"
proof (cases "orders st' = orders st")
  case True
  then show ?thesis by simp
next
  case False
  with assms obtain sub ois this where
    "Order_create e (orders st) (new_order e u req sub ois) = Some (this, orders st')"
    by (auto simp: create_order_def
             split: if_splits sum.splits option.splits prod.splits bool.splits)
  from Order_create_Some[OF this] show ?thesis by blast
qed

lemma sell_zero: "sell 0 p = p"
  by (simp add: sell_def)

lemma sell_sell: "sell m (sell n p) = sell (n + m) p"
  by (simp add: sell_def algebra_simps)

text \<open>
  When every save of the second loop goes through, each product carries the sale of all
  that the cart asked of it.
\<close>

lemma update_stock_closed:
  "update_stock ps items = (True, ps') \<Longrightarrow>
   findById ps' i = map_option (sell (requested items i)) (findById ps i)"
proof (induction items arbitrary: ps)
  case Nil
  then show ?case by (cases "findById ps i") (simp_all add: requested_def sell_zero)
next
  case (Cons item items)
  show ?case
  proof (cases "case it_product item of None \<Rightarrow> None | Some j \<Rightarrow> findById ps j")
    case None
    with Cons.prems have "update_stock ps items = (True, ps')" by simp
    from Cons.IH[OF this]
    have IH: "findById ps' i = map_option (sell (requested items i)) (findById ps i)" .
    have "findById ps i = None \<or> it_product item \<noteq> Some i"
      using None by (auto split: option.splits)
    then show ?thesis using IH by (auto simp: requested_def)
  next
    case (Some product)
    then obtain j where j: "it_product item = Some j" and f: "findById ps j = Some product"
      by (auto split: option.splits)
    have pid: "p_id product = j" using findById_Some_id[OF f] .
    show ?thesis
    proof (cases "stock_trackInventory product")
      case False
      with Cons.prems Some have "update_stock ps items = (True, ps')" by simp
      from Cons.IH[OF this]
      have IH: "findById ps' i = map_option (sell (requested items i)) (findById ps i)" .
      show ?thesis
      proof (cases "i = j")
        case True
        then show ?thesis using IH f False j by (simp add: requested_def sell_def)
      next
        case False
        then show ?thesis using IH j by (simp add: requested_def)
      qed
    next
      case True
      let ?p' = "product\<lparr> stock_quantity := stock_quantity product - it_quantity item,
                          sales_count := sales_count product + it_quantity item,
                          sales_revenue := sales_revenue product
                                             + p_price product * it_quantity item \<rparr>"
      from Cons.prems Some True obtain ps1 where
        sv: "product_save ps ?p' = Some ps1" and rest: "update_stock ps1 items = (True, ps')"
        by (auto split: option.splits)
      from Cons.IH[OF rest]
      have IH: "findById ps' i = map_option (sell (requested items i)) (findById ps1 i)" .
      have p': "?p' = sell (it_quantity item) product" using True by (simp add: sell_def)
      have f1: "findById ps1 i = (if i = j then Some ?p' else findById ps i)"
        using product_save_find[OF sv, of i] pid f by auto
      show ?thesis
      proof (cases "i = j")
        case True
        have "requested (item # items) i = it_quantity item + requested items i"
          using True j by (simp add: requested_def)
        then show ?thesis using IH f1 True f by (simp add: p' sell_sell)
      next
        case False
        then show ?thesis using IH f1 j by (simp add: requested_def)
      qed
    qed
  qed
qed

section \<open>The stock invariant\<close>

lemma update_stock_ok: "stock_ok ps \<Longrightarrow> stock_ok (snd (update_stock ps items))"
proof (induction items arbitrary: ps)
  case Nil
  then show ?case by simp
next
  case (Cons item items)
  then show ?case
    by (auto split: option.splits dest: product_save_ok)
qed

lemma restore_stock_ok: "stock_ok ps \<Longrightarrow> stock_ok (snd (restore_stock ps items))"
proof (induction items arbitrary: ps)
  case Nil
  then show ?case by simp
next
  case (Cons item items)
  then show ?case
    by (auto split: option.splits dest: product_save_ok)
qed

lemma create_order_ok:
  "stock_ok (products st) \<Longrightarrow> stock_ok (products (snd (create_order e u st req)))"
  using update_stock_ok[of "products st" "rq_items req"]
  by (auto simp: create_order_def split: sum.splits option.splits prod.splits bool.splits)

lemma update_status_ok:
  assumes ok: "stock_ok (products st)"
  shows "stock_ok (products (snd (update_status e st i req)))"
proof -
  have r: "\<And>items. stock_ok (snd (restore_stock (products st) items))"
    using restore_stock_ok[OF ok] .
  show ?thesis using ok
    apply (auto simp: update_status_def Let_def split: option.splits prod.splits bool.splits)
    using r apply (metis snd_conv)+
    done
qed

section \<open>Facts about the status handler\<close>

lemma findOrder_Some_id: "findOrder os i = Some x \<Longrightarrow> o_id x = i"
  unfolding findOrder_def by (induction os) (auto split: if_splits)

lemma findOrder_replace:
  "o_id d = j \<Longrightarrow>
   findOrder (map (\<lambda>x. if o_id x = j then d else x) os) i =
     (if i = j \<and> findOrder os i \<noteq> None then Some d else findOrder os i)"
  unfolding findOrder_def by (induction os) auto

lemma set_status_fields:
  "o_id (set_status e s x) = o_id x" "o_status (set_status e s x) = s"
  "o_cancelledAt (set_status e s x) = o_cancelledAt x" "o_items (set_status e s x) = o_items x"
  by (simp_all add: set_status_def Let_def)

lemma set_tracking_fields:
  "o_id (set_tracking req x) = o_id x" "o_status (set_tracking req x) = o_status x"
  "o_cancelledAt (set_tracking req x) = o_cancelledAt x"
  by (simp_all add: set_tracking_def Let_def split: option.splits)

lemma order_save_fst: "fst (order_save e os d) = pre_save e os d"
  by (simp add: order_save_def Let_def)

lemma order_save_found:
  assumes "findOrder os i = Some found" and "o_id d = i"
  shows "findOrder (snd (order_save e os d)) i = Some (pre_save e os d)"
  using assms by (simp add: order_save_def Let_def findOrder_replace pre_save_fields)

text \<open>
  The guard of the cancellation block: a cancellation of an order whose \<^verbatim>\<open>cancelledAt\<close>
  is set runs no restoration, so the products stay as they are, and the date stays.
\<close>

lemma cancel_again_is_noop:
  assumes "findOrder (orders st) i = Some found"
    and "o_cancelledAt found \<noteq> None"
    and "rq_status req = ''cancelled''"
  shows "\<exists>order os. update_status e st i req = (Inr order, st\<lparr>orders := os\<rparr>)
           \<and> o_cancelledAt order = o_cancelledAt found"
proof -
  have p: "parse_status (rq_status req) = Some Cancelled"
    using assms(3) by (simp add: parse_status_def)
  let ?d = "set_tracking req (set_status e Cancelled found)"
  from assms(2) obtain c where "o_cancelledAt found = Some c" by blast
  then have "o_cancelledAt (set_status e Cancelled found) = Some c"
    by (simp add: set_status_fields)
  then have u: "update_status e st i req =
        (Inr (fst (order_save e (orders st) ?d)), st\<lparr>orders := snd (order_save e (orders st) ?d)\<rparr>)"
    using assms(1) p by (simp add: update_status_def Let_def case_prod_beta)
  have "o_cancelledAt (fst (order_save e (orders st) ?d)) = o_cancelledAt found"
    by (simp add: order_save_fst pre_save_fields set_tracking_fields set_status_fields)
  with u show ?thesis by blast
qed

section \<open>Cancelling a created order\<close>

lemma findById_Some_mem: "findById ps i = Some p \<Longrightarrow> p \<in> set ps"
  unfolding findById_def by (induction ps) (auto split: if_splits)

lemma refund_zero: "refund 0 0 p = p"
  by (simp add: refund_def)

lemma refund_refund: "refund n2 r2 (refund n1 r1 p) = refund (n1 + n2) (r1 + r2) p"
  by (simp add: refund_def algebra_simps)

lemma refund_sell:
  "refund n (p_price p * n) (sell n p) = p"
  by (simp add: refund_def sell_def)

lemma restore_stock_closed:
  "restore_stock ps items = (True, ps') \<Longrightarrow>
   findById ps' i = map_option (refund (returned items i) (refunded items i)) (findById ps i)"
proof (induction items arbitrary: ps)
  case Nil
  then show ?case
    by (cases "findById ps i") (simp_all add: returned_def refunded_def refund_zero)
next
  case (Cons item items)
  show ?case
  proof (cases "findById ps (oi_product item)")
    case None
    with Cons.prems have "restore_stock ps items = (True, ps')" by simp
    from Cons.IH[OF this]
    have IH: "findById ps' i =
                map_option (refund (returned items i) (refunded items i)) (findById ps i)" .
    show ?thesis
    proof (cases "i = oi_product item")
      case True
      then show ?thesis using IH None by simp
    next
      case False
      then show ?thesis using IH by (simp add: returned_def refunded_def)
    qed
  next
    case (Some product)
    have pid: "p_id product = oi_product item" using findById_Some_id[OF Some] .
    show ?thesis
    proof (cases "stock_trackInventory product")
      case False
      with Cons.prems Some have "restore_stock ps items = (True, ps')" by simp
      from Cons.IH[OF this]
      have IH: "findById ps' i =
                  map_option (refund (returned items i) (refunded items i)) (findById ps i)" .
      show ?thesis
      proof (cases "i = oi_product item")
        case True
        then show ?thesis using IH Some False by (simp add: refund_def)
      next
        case False
        then show ?thesis using IH by (simp add: returned_def refunded_def)
      qed
    next
      case True
      let ?p' = "product\<lparr> stock_quantity := stock_quantity product + oi_quantity item,
                          sales_count := sales_count product - oi_quantity item,
                          sales_revenue := sales_revenue product
                                             - oi_price item * oi_quantity item \<rparr>"
      from Cons.prems Some True obtain ps1 where
        sv: "product_save ps ?p' = Some ps1" and rest: "restore_stock ps1 items = (True, ps')"
        by (auto split: option.splits)
      from Cons.IH[OF rest]
      have IH: "findById ps' i =
                  map_option (refund (returned items i) (refunded items i)) (findById ps1 i)" .
      have p': "?p' = refund (oi_quantity item) (oi_price item * oi_quantity item) product"
        using True by (simp add: refund_def)
      have f1: "findById ps1 i = (if i = oi_product item then Some ?p' else findById ps i)"
        using product_save_find[OF sv, of i] pid Some by auto
      show ?thesis
      proof (cases "i = oi_product item")
        case True
        have "returned (item # items) i = oi_quantity item + returned items i"
          and "refunded (item # items) i = oi_price item * oi_quantity item + refunded items i"
          using True by (simp_all add: returned_def refunded_def)
        then show ?thesis using IH f1 True Some by (simp add: p' refund_refund)
      next
        case False
        then show ?thesis using IH f1 by (simp add: returned_def refunded_def)
      qed
    qed
  qed
qed

lemma restore_stock_succeeds:
  "stock_ok ps \<Longrightarrow> list_all (\<lambda>item. 0 \<le> oi_quantity item) items
     \<Longrightarrow> fst (restore_stock ps items)"
proof (induction items arbitrary: ps)
  case Nil
  then show ?case by simp
next
  case (Cons item items)
  show ?case
  proof (cases "findById ps (oi_product item)")
    case None
    then show ?thesis using Cons by simp
  next
    case (Some product)
    show ?thesis
    proof (cases "stock_trackInventory product")
      case False
      then show ?thesis using Cons Some by simp
    next
      case True
      have "0 \<le> stock_quantity product"
        using Cons.prems(1) findById_Some_mem[OF Some] True
        by (auto simp: stock_ok_def list_all_iff)
      moreover have "0 \<le> oi_quantity item" using Cons.prems(2) by simp
      ultimately obtain ps1 where
        sv: "product_save ps
               (product\<lparr> stock_quantity := stock_quantity product + oi_quantity item,
                          sales_count := sales_count product - oi_quantity item,
                          sales_revenue := sales_revenue product
                                             - oi_price item * oi_quantity item \<rparr>) = Some ps1"
        by (simp add: product_save_def)
      have "stock_ok ps1" using product_save_ok[OF Cons.prems(1) sv] .
      then have "fst (restore_stock ps1 items)" using Cons.IH Cons.prems(2) by simp
      then show ?thesis using Some True sv by simp
    qed
  qed
qed

lemma validate_items_snapshot:
  "validate_items ps t items sub acc = Inr (s, ois) \<Longrightarrow>
   returned ois i = returned acc i + requested items i
   \<and> refunded ois i = refunded acc i
        + (case findById ps i of None \<Rightarrow> 0 | Some p \<Rightarrow> p_price p * requested items i)"
proof (induction items arbitrary: sub acc)
  case Nil
  then show ?case by (simp add: requested_def split: option.splits)
next
  case (Cons item items)
  from Cons.prems obtain j product where
    j: "it_product item = Some j" and f: "findById ps j = Some product"
    and rest: "validate_items ps t items (sub + p_price product * it_quantity item)
                 (acc @ [\<lparr> oi_product = p_id product, oi_name = p_name product,
                            oi_price = p_price product, oi_quantity = it_quantity item,
                            oi_image = (case p_images product of [] \<Rightarrow> [] | u # _ \<Rightarrow> u),
                            oi_variant = when_truthy (it_variant item) \<rparr>]) = Inr (s, ois)"
    by (auto split: option.splits if_splits)
  have pid: "p_id product = j" using findById_Some_id[OF f] .
  note IH = Cons.IH[OF rest]
  show ?case
  proof (cases "i = j")
    case True
    then show ?thesis using IH f j pid
      by (simp add: returned_def refunded_def requested_def algebra_simps)
  next
    case False
    then show ?thesis using IH j pid
      by (simp add: returned_def refunded_def requested_def split: option.splits)
  qed
qed

lemma Order_create_checks:
  "Order_create e os d = Some (this, os') \<Longrightarrow>
   list_all (\<lambda>item. 1 \<le> oi_quantity item) (o_items d) \<and> o_id this \<notin> set (map o_id os)"
  by (auto simp: Order_create_def Let_def split: if_splits)

lemma create_order_Inr_created:
  assumes "create_order e u st req = (Inr order, st')"
  shows "\<exists>d. Order_create e (orders st) d = Some (order, orders st')"
  using assms
  by (auto simp: create_order_def
           split: if_splits sum.splits option.splits prod.splits bool.splits)

lemma create_order_Inr_checked:
  assumes "create_order e u st req = (Inr order, st')"
  shows "list_all (\<lambda>item. 1 \<le> oi_quantity item) (o_items order)
         \<and> o_id order \<notin> set (map o_id (orders st))"
proof -
  from create_order_Inr_created[OF assms] obtain d where
    d: "Order_create e (orders st) d = Some (order, orders st')" by blast
  from Order_create_Some[OF d] have "o_items order = o_items d"
    by (simp add: pre_save_fields)
  with Order_create_checks[OF d] show ?thesis by simp
qed

lemma findOrder_last:
  "o_id x \<notin> set (map o_id os) \<Longrightarrow> findOrder (os @ [x]) (o_id x) = Some x"
  unfolding findOrder_def by (induction os) auto

text \<open>
  An order that the creation handler answered with, cancelled in the store that the
  creation left: the cancellation goes through, sets \<^verbatim>\<open>cancelledAt\<close>, and every product is
  again what it was before the creation.
\<close>

lemma cancel_restores_created:
  assumes ok: "stock_ok (products st)"
    and c: "create_order e user st req = (Inr order, st')"
    and s: "rq_status sreq = ''cancelled''"
  shows "\<exists>order' st''. update_status e' st' (o_id order) sreq = (Inr order', st'')
           \<and> o_cancelledAt order' = Some (e_now e')
           \<and> (\<forall>i. findById (products st'') i = findById (products st) i)"
proof -
  from create_order_Inr[OF c] obtain sub ois where
    v: "validate_items (products st) (rq_isTest req) (rq_items req) 0 [] = Inr (sub, ois)"
    and o: "order = pre_save e (orders st) (new_order e user req sub ois)"
    and os: "orders st' = orders st @ [order]"
    and us: "update_stock (products st) (rq_items req) = (True, products st')" by blast
  from create_order_Inr_checked[OF c]
  have q: "list_all (\<lambda>item. 1 \<le> oi_quantity item) (o_items order)"
    and fresh: "o_id order \<notin> set (map o_id (orders st))" by blast+
  have items: "o_items order = ois" and nc: "o_cancelledAt order = None"
    by (simp_all add: o pre_save_fields new_order_def)
  have f: "findOrder (orders st') (o_id order) = Some order"
    unfolding os using findOrder_last[OF fresh] .
  have p: "parse_status (rq_status sreq) = Some Cancelled"
    using s by (simp add: parse_status_def)
  have ok': "stock_ok (products st')"
    using create_order_ok[OF ok, of e user req] c by simp
  have q0: "list_all (\<lambda>item. 0 \<le> oi_quantity item) ois"
    using q unfolding items list_all_iff by auto
  obtain ps'' where r: "restore_stock (products st') ois = (True, ps'')"
    using restore_stock_succeeds[OF ok' q0] by (cases "restore_stock (products st') ois") auto
  let ?d = "set_tracking sreq (set_status e' Cancelled order\<lparr>o_cancelledAt := Some (e_now e')\<rparr>)"
  have u: "update_status e' st' (o_id order) sreq =
             (Inr (fst (order_save e' (orders st') ?d)),
              \<lparr> products = ps'', orders = snd (order_save e' (orders st') ?d) \<rparr>)"
    using f p nc r
    by (simp add: update_status_def Let_def case_prod_beta set_status_fields items)
  have ca: "o_cancelledAt (fst (order_save e' (orders st') ?d)) = Some (e_now e')"
    by (simp add: order_save_fst pre_save_fields set_tracking_fields)
  have same: "findById ps'' i = findById (products st) i" for i
  proof (cases "findById (products st) i")
    case None
    then show ?thesis
      using restore_stock_closed[OF r, of i] update_stock_closed[OF us, of i] by simp
  next
    case (Some prod)
    from validate_items_snapshot[OF v, of i] Some
    have ret: "returned ois i = requested (rq_items req) i"
      and ref: "refunded ois i = p_price prod * requested (rq_items req) i"
      by (simp_all add: returned_def refunded_def)
    show ?thesis
      using restore_stock_closed[OF r, of i] update_stock_closed[OF us, of i] Some
      by (simp add: ret ref refund_sell sell_def refund_def)
  qed
  from u ca same show ?thesis by auto
qed

section \<open>Facts about the order-number loop\<close>

text \<open>
  The loop tries the sequence numbers \<open>count + 1\<close> to \<open>count + 100\<close> in turn and stops at
  the first that no other order has.
\<close>

lemma probe_closed:
  "1 \<le> c \<Longrightarrow> c \<le> 100 \<Longrightarrow>
   probe t e taken count c (numbered t e (count + c)) =
     (case List.find (\<lambda>k. numbered t e (count + k) \<notin> set taken) [c..<101] of
        Some k \<Rightarrow> numbered t e (count + k)
      | None \<Rightarrow> exhausted_number t e)"
proof (induction "100 - c" arbitrary: c)
  case 0
  then have c: "c = 100" by simp
  show ?case
    by (subst probe.simps) (simp add: c)
next
  case (Suc d)
  then have lt: "c < 100" and d: "d = 100 - Suc c" by simp_all
  have IH: "probe t e taken count (Suc c) (numbered t e (count + Suc c)) =
     (case List.find (\<lambda>k. numbered t e (count + k) \<notin> set taken) [Suc c..<101] of
        Some k \<Rightarrow> numbered t e (count + k)
      | None \<Rightarrow> exhausted_number t e)"
    using Suc.hyps(1)[OF d] lt by simp
  have step: "List.find (\<lambda>k. numbered t e (count + k) \<notin> set taken) [c..<101] =
      (if numbered t e (count + c) \<notin> set taken then Some c
       else List.find (\<lambda>k. numbered t e (count + k) \<notin> set taken) [Suc c..<101])"
    using lt by (simp add: upt_conv_Cons)
  show ?case
    using lt IH by (subst probe.simps) (simp add: step)
qed

lemma generate_number_closed:
  "generate_number e os this =
     (case List.find (\<lambda>k. numbered (o_isTest this) e (length os + k)
                            \<notin> set (other_numbers os (o_id this))) [1..<101] of
        Some k \<Rightarrow> numbered (o_isTest this) e (length os + k)
      | None \<Rightarrow> exhausted_number (o_isTest this) e)"
  unfolding generate_number_def
  using probe_closed[of 1 "o_isTest this" e "other_numbers os (o_id this)" "length os"]
  by simp

section \<open>The examples, evaluated\<close>

lemma ex_store_sel: "orders (ex_store n) = []" "products (ex_store n) = [ex_product n]"
  by (simp_all add: ex_store_def)

lemma ex_create_ok:
  "create_order ex_env 3 (ex_store 5) (ex_req False 2 ''card'' None 20) =
     (Inr (ex_order 7 ''ORD-20261101-00001'' Pending 2 False),
      \<lparr> products = [(ex_product 3)\<lparr>sales_count := 2, sales_revenue := 20\<rparr>],
        orders = [ex_order 7 ''ORD-20261101-00001'' Pending 2 False] \<rparr>)"
  by code_simp

lemma ex_create_short:
  "create_order ex_env 3 (ex_store 1) (ex_req False 2 ''card'' None 20) =
     (Inl (InsufficientStock 1), ex_store 1)"
  by code_simp

lemma ex_create_bank:
  "create_order ex_env 3 (ex_store 5) (ex_req False 2 ''bank_transfer'' None 20) =
     (Inl MissingTransactionId, ex_store 5)"
  by code_simp

lemma ex_create_zero:
  "create_order ex_env 3 (ex_store 5) (ex_req False 2 ''card'' (Some 0) 0) =
     (Inr (ex_order 7 ''ORD-20261101-00001'' Pending 2 False),
      \<lparr> products = [(ex_product 3)\<lparr>sales_count := 2, sales_revenue := 20\<rparr>],
        orders = [ex_order 7 ''ORD-20261101-00001'' Pending 2 False] \<rparr>)"
  by code_simp

lemma ex_test_order:
  "create_order ex_env 3 (ex_store 0) (ex_req True 1 ''card'' None 20) =
     (Inl ServerError,
      \<lparr> products = [ex_product 0],
        orders = [ex_order 7 ''TEST-20261101-00001'' Pending 1 True] \<rparr>)"
  by code_simp

lemma ex_reopen:
  "update_status ex_env
      \<lparr> products = [ex_product 3],
        orders = [(ex_order 7 ''ORD-20261101-00001'' Cancelled 2 False)\<lparr>o_cancelledAt := Some 5\<rparr>] \<rparr>
      7 (ex_status_req ''confirmed'')
   = (Inr ((ex_order 7 ''ORD-20261101-00001'' Confirmed 2 False)\<lparr>o_cancelledAt := Some 5\<rparr>),
      \<lparr> products = [ex_product 3],
        orders = [(ex_order 7 ''ORD-20261101-00001'' Confirmed 2 False)\<lparr>o_cancelledAt := Some 5\<rparr>] \<rparr>)"
  by code_simp

lemma ex_order_sel:
  "o_id (ex_order i n s q t) = i" "o_orderNumber (ex_order i n s q t) = n"
  "o_status (ex_order i n s q t) = s"
  by (simp_all add: ex_order_def)

lemma ex_crowded_length: "length ex_crowded = 101"
  by (simp add: ex_crowded_def del: upt_rec_numeral)

lemma ex_crowded_numbers:
  "map o_orderNumber ex_crowded =
     map (numbered False ex_env) [102..<202] @ [''ORD-20261101-1793574000000'']"
  by (simp add: ex_crowded_def ex_order_sel o_def del: upt_rec_numeral)

lemma ex_crowded_others: "other_numbers ex_crowded 7 = map o_orderNumber ex_crowded"
proof -
  have "filter (\<lambda>x. o_id x \<noteq> 7) ex_crowded = ex_crowded"
    by (rule filter_True) (auto simp: ex_crowded_def ex_order_sel simp del: upt_rec_numeral)
  then show ?thesis by (simp add: other_numbers_def)
qed

lemma ex_exhausted: "exhausted_number False ex_env = ''ORD-20261101-1793574000000''"
  by code_simp

lemma ex_crowded_generate:
  assumes "o_id this = 7" and "\<not> o_isTest this"
  shows "generate_number ex_env ex_crowded this = ''ORD-20261101-1793574000000''"
proof -
  have "List.find (\<lambda>k. numbered False ex_env (length ex_crowded + k)
                          \<notin> set (other_numbers ex_crowded 7)) [1..<101] = None"
    unfolding find_None_iff ex_crowded_others ex_crowded_numbers ex_crowded_length
  proof (intro notI, elim exE conjE)
    fix k :: nat assume k: "k \<in> set [1..<101]"
      and n: "numbered False ex_env (101 + k)
                \<notin> set (map (numbered False ex_env) [102..<202] @ [''ORD-20261101-1793574000000''])"
    from k have "1 \<le> k \<and> k < 101"
      unfolding set_upt atLeastLessThan_iff .
    then have "101 + k \<in> {102..<202}"
      unfolding atLeastLessThan_iff by arith
    then have "101 + k \<in> set [102..<202]"
      unfolding set_upt .
    then have "numbered False ex_env (101 + k) \<in> numbered False ex_env ` set [102..<202]"
      by (rule imageI)
    then have "numbered False ex_env (101 + k)
                 \<in> set (map (numbered False ex_env) [102..<202] @ [''ORD-20261101-1793574000000''])"
      unfolding set_append set_map by (rule UnI1)
    with n show False by (rule notE)
  qed
  then show ?thesis
    using assms by (simp add: generate_number_closed ex_exhausted)
qed

text \<open>
  The creation handler, by its answer. An answer that is one of the business-rule errors
  (a missing product reference, an unknown product, an inactive product, insufficient
  stock on a line, or a bank transfer without a transaction identifier) leaves the whole
  store as it was. An answer that is the order has added exactly that order, and every
  product carries the sale of the quantity the cart asked of it. Nothing is said here of
  the 500 answer.
\<close>

lemma create_order_by_answer:
  assumes "create_order e user st req = (r, st')"
  shows "(\<forall>err. r = Inl err \<and> business_rule_error err \<longrightarrow> st' = st)
       \<and> (\<forall>order. r = Inr order \<longrightarrow>
             orders st' = orders st @ [order]
           \<and> (\<forall>i. findById (products st') i =
                    map_option (sell (requested (rq_items req) i)) (findById (products st) i)))"
proof (intro conjI allI impI)
  fix err assume "r = Inl err \<and> business_rule_error err"
  with assms show "st' = st"
    by (auto simp: create_order_def
             split: if_splits sum.splits option.splits prod.splits bool.splits)
next
  fix order assume "r = Inr order"
  with assms have c: "create_order e user st req = (Inr order, st')" by simp
  from create_order_Inr[OF c] show "orders st' = orders st @ [order]" by blast
next
  fix order i assume "r = Inr order"
  with assms have c: "create_order e user st req = (Inr order, st')" by simp
  from create_order_Inr[OF c]
  have "update_stock (products st) (rq_items req) = (True, products st')" by blast
  from update_stock_closed[OF this]
  show "findById (products st') i =
          map_option (sell (requested (rq_items req) i)) (findById (products st) i)" .
qed

lemma create_order_by_answer_example:
  "create_order ex_env 3 (ex_store 1) (ex_req False 2 ''card'' None 20)
     = (Inl (InsufficientStock 1), ex_store 1)
   \<and> business_rule_error (InsufficientStock 1)
   \<and> create_order ex_env 3 (ex_store 5) (ex_req False 2 ''bank_transfer'' None 20)
     = (Inl MissingTransactionId, ex_store 5)
   \<and> business_rule_error MissingTransactionId
   \<and> fst (create_order ex_env 3 (ex_store 5) (ex_req False 2 ''card'' None 20))
       = Inr (ex_order 7 ''ORD-20261101-00001'' Pending 2 False)
   \<and> orders (snd (create_order ex_env 3 (ex_store 5) (ex_req False 2 ''card'' None 20)))
       = orders (ex_store 5) @ [ex_order 7 ''ORD-20261101-00001'' Pending 2 False]
   \<and> findById (products (snd (create_order ex_env 3 (ex_store 5) (ex_req False 2 ''card'' None 20)))) 1
       = Some ((ex_product 3)\<lparr>sales_count := 2, sales_revenue := 20\<rparr>)"
  using create_order_by_answer[OF ex_create_short]
    create_order_by_answer[OF ex_create_bank]
    create_order_by_answer[OF ex_create_ok]
  by (simp add: ex_create_ok ex_create_short ex_create_bank ex_store_sel findById_def
        ex_product_def)

section \<open>The claims\<close>

text \<open>
  Claim C1, at a failing input. A cart that is not a test order names the one tracked
  product on two lines, 2 units on each, against a stock of 3: it asks 4 units, and the
  stock is insufficient. Each line passes the stock check by itself, since the check reads
  the stored stock and 3 is not less than 2. The order is persisted; the first save lowers
  the stock to 1 and raises the sales count to 2 and the revenue to 20; the second save,
  of stock -1, is rejected by the schema's minimum. The answer is the 500 error, and
  nothing is undone: the order is in the collection and the product's counters are changed.
\<close>

theorem oversold_cart_is_half_applied:
  "\<not> rq_isTest (ex_req_twice 2)
   \<and> requested (rq_items (ex_req_twice 2)) 1 = 4
   \<and> map stock_quantity (products (ex_store 3)) = [3]
   \<and> orders (ex_store 3) = []
   \<and> fst (create_order ex_env 3 (ex_store 3) (ex_req_twice 2)) = Inl ServerError
   \<and> products (snd (create_order ex_env 3 (ex_store 3) (ex_req_twice 2)))
       = [(ex_product 1)\<lparr>sales_count := 2, sales_revenue := 20\<rparr>]
   \<and> map o_orderNumber (orders (snd (create_order ex_env 3 (ex_store 3) (ex_req_twice 2))))
       = [''ORD-20261101-00001'']
   \<and> map o_status (orders (snd (create_order ex_env 3 (ex_store 3) (ex_req_twice 2))))
       = [Pending]"
  by code_simp

text \<open>
  Claim C2. If no tracked product has a negative stock in the initial store, then none has
  in any store reached from it by order creations and status updates (cancellations among
  them): a save that would write a negative stock is rejected by the schema.
\<close>

theorem stock_never_negative:
  assumes "stock_ok (products init)" and "reachable init st"
  shows "\<forall>p \<in> set (products st). stock_trackInventory p \<longrightarrow> 0 \<le> stock_quantity p"
proof -
  from assms(2) assms(1) have "stock_ok (products st)"
  proof (induction rule: reachable.induct)
    case start
    then show ?case .
  next
    case (created st e user req)
    then show ?case by (simp add: create_order_ok)
  next
    case (updated st e i req)
    then show ?case by (simp add: update_status_ok)
  qed
  then show ?thesis by (simp add: stock_ok_def list_all_iff)
qed

theorem stock_never_negative_witness:
  "stock_ok (products (ex_store 0))
   \<and> reachable (ex_store 0) (snd (create_order ex_env 3 (ex_store 0) (ex_req True 1 ''card'' None 20)))
   \<and> map stock_quantity (products (snd (create_order ex_env 3 (ex_store 0) (ex_req True 1 ''card'' None 20)))) = [0]"
proof -
  have a: "stock_ok (products (ex_store 0))" by code_simp
  have b: "reachable (ex_store 0) (snd (create_order ex_env 3 (ex_store 0) (ex_req True 1 ''card'' None 20)))"
    by (rule reachable.created[OF reachable.start])
  from stock_never_negative[OF a b] a b show ?thesis
    by (simp add: ex_test_order ex_product_def)
qed

text \<open>
  Claim C3, amended. A document with no order number gets
  \<^verbatim>\<open>{PREFIX}-{YYYYMMDD}-{sequence}\<close>, PREFIX being TEST for a test order and ORD otherwise.
  The sequence is the first of \<open>count + 1\<close>, ..., \<open>count + 100\<close> (\<open>count\<close> the number of
  orders in the collection), padded to five digits, whose number no other order has. When
  all hundred are taken the number is \<^verbatim>\<open>{PREFIX}-{YYYYMMDD}-{Date.now()}\<close>: the clock alone,
  with no random suffix, and not looked up in the collection. The clock with the random
  suffix, \<^verbatim>\<open>{PREFIX}-{Date.now()}-{random}\<close>, is the number only when a query of the hook
  throws.
\<close>

theorem order_number_generation:
  "o_orderNumber (pre_save e os this) =
     (if \<not> blank (o_orderNumber this) then o_orderNumber this
      else if e_queryThrows e
      then (if o_isTest this then ''TEST'' else ''ORD'') @ ''-'' @ string_of_nat (e_now e)
             @ ''-'' @ e_random e
      else (case List.find (\<lambda>k. numbered (o_isTest this) e (length os + k)
                                  \<notin> set (other_numbers os (o_id this))) [1..<101] of
              Some k \<Rightarrow> (if o_isTest this then ''TEST'' else ''ORD'') @ ''-'' @ date_part e
                          @ ''-'' @ padStart 5 (string_of_nat (length os + k))
            | None \<Rightarrow> (if o_isTest this then ''TEST'' else ''ORD'') @ ''-'' @ date_part e
                        @ ''-'' @ string_of_nat (e_now e)))"
  by (simp add: pre_save_def generate_number_closed catch_number_def numbered_def
        exhausted_number_def prefix_of_def split: option.splits)

text \<open>
  The claim as stated fails on a collection where the hundred sequence numbers are taken
  and so is the number made of the clock: the hook produces that number again, it carries no
  random suffix, and the unique index then rejects the new order.
\<close>

theorem order_number_exhaustion_counterexample:
  "o_orderNumber (pre_save ex_env ex_crowded
      (new_order ex_env 3 (ex_req False 2 ''card'' None 20) 20 [])) = ''ORD-20261101-1793574000000''
   \<and> ''ORD-20261101-1793574000000'' \<in> set (map o_orderNumber ex_crowded)
   \<and> Order_create ex_env ex_crowded
        (new_order ex_env 3 (ex_req False 2 ''card'' None 20) 20 []) = None"
proof -
  let ?doc = "new_order ex_env 3 (ex_req False 2 ''card'' None 20) 20 []"
  have d: "o_id ?doc = 7" "\<not> o_isTest ?doc" "o_orderNumber ?doc = []" "o_items ?doc = []"
    by (simp_all add: new_order_def ex_env_def ex_req_def)
  have q: "\<not> e_queryThrows ex_env" by (simp add: ex_env_def)
  have n: "o_orderNumber (pre_save ex_env ex_crowded ?doc) = ''ORD-20261101-1793574000000''"
    using ex_crowded_generate[OF d(1,2)] d(3) q by (simp add: pre_save_def blank_def)
  have m: "''ORD-20261101-1793574000000'' \<in> set (map o_orderNumber ex_crowded)"
    unfolding ex_crowded_numbers set_append by (rule UnI2) simp
  have "Order_create ex_env ex_crowded ?doc = None"
    using n m d(4) by (simp add: Order_create_def Let_def)
  with n m show ?thesis by simp
qed

text \<open>
  Claim C4, at a failing input. A test order for one unit of a tracked product with no
  stock is persisted, and its stock update is rejected, so creation applied no delta.
  Cancelling that order still credits the product: the stock goes from 0 to 1, the sales
  count from 0 to -1 and the revenue from 0 to -10.
\<close>

theorem cancel_after_failed_creation:
  "products (snd (create_order ex_env 3 (ex_store 0) (ex_req True 1 ''card'' None 20)))
     = [ex_product 0]
   \<and> update_status ex_env
        (snd (create_order ex_env 3 (ex_store 0) (ex_req True 1 ''card'' None 20)))
        7 (ex_status_req ''cancelled'')
     = (Inr ((ex_order 7 ''TEST-20261101-00001'' Cancelled 1 True)
               \<lparr>o_cancelledAt := Some 1793574000000\<rparr>),
        \<lparr> products = [(ex_product 1)\<lparr>sales_count := - 1, sales_revenue := - 10\<rparr>],
          orders = [(ex_order 7 ''TEST-20261101-00001'' Cancelled 1 True)
                      \<lparr>o_cancelledAt := Some 1793574000000\<rparr>] \<rparr>)"
  by code_simp

text \<open>
  Claim C5, amended. The status handler assigns whatever recognised status the request
  carries, from every current status: delivered and cancelled are not terminal, and an
  order can return to pending. (A cancellation of an order whose \<^verbatim>\<open>cancelledAt\<close> is not set
  also runs the stock restoration, and is left out here.)
\<close>

theorem status_update_assigns_any_status:
  assumes "findOrder (orders st) i = Some found"
    and "parse_status (rq_status req) = Some s"
    and "s = Cancelled \<longrightarrow> o_cancelledAt found \<noteq> None"
  shows "\<exists>order os. update_status e st i req = (Inr order, st\<lparr>orders := os\<rparr>)
           \<and> o_status order = s \<and> findOrder os i = Some order"
proof -
  let ?d = "set_tracking req (set_status e s found)"
  have id: "o_id ?d = i"
    using findOrder_Some_id[OF assms(1)] by (simp add: set_tracking_fields set_status_fields)
  have f: "findOrder (snd (order_save e (orders st) ?d)) i = Some (pre_save e (orders st) ?d)"
    using order_save_found[OF assms(1) id] .
  have u: "update_status e st i req =
        (Inr (pre_save e (orders st) ?d), st\<lparr>orders := snd (order_save e (orders st) ?d)\<rparr>)"
  proof (cases "s = Cancelled")
    case True
    with assms(3) obtain c where "o_cancelledAt found = Some c" by blast
    then show ?thesis
      using assms(1,2) True
      by (simp add: update_status_def Let_def case_prod_beta order_save_fst set_status_fields)
  next
    case False
    then show ?thesis
      using assms(1,2)
      by (simp add: update_status_def Let_def case_prod_beta order_save_fst)
  qed
  have "o_status (pre_save e (orders st) ?d) = s"
    by (simp add: pre_save_fields set_tracking_fields set_status_fields)
  with u f show ?thesis by blast
qed

theorem status_update_assigns_any_status_witness:
  "findOrder [(ex_order 7 ''ORD-20261101-00001'' Cancelled 2 False)\<lparr>o_cancelledAt := Some 5\<rparr>] 7
     = Some ((ex_order 7 ''ORD-20261101-00001'' Cancelled 2 False)\<lparr>o_cancelledAt := Some 5\<rparr>)
   \<and> parse_status (rq_status (ex_status_req ''confirmed'')) = Some Confirmed
   \<and> Confirmed \<noteq> Cancelled
   \<and> (\<exists>order os.
         update_status ex_env
           \<lparr> products = [ex_product 3],
             orders = [(ex_order 7 ''ORD-20261101-00001'' Cancelled 2 False)\<lparr>o_cancelledAt := Some 5\<rparr>] \<rparr>
           7 (ex_status_req ''confirmed'')
         = (Inr order, \<lparr> products = [ex_product 3], orders = os \<rparr>)
         \<and> o_status order = Confirmed \<and> findOrder os 7 = Some order)"
proof -
  let ?st = "\<lparr> products = [ex_product 3],
               orders = [(ex_order 7 ''ORD-20261101-00001'' Cancelled 2 False)\<lparr>o_cancelledAt := Some 5\<rparr>] \<rparr>"
  have a: "findOrder (orders ?st) 7
             = Some ((ex_order 7 ''ORD-20261101-00001'' Cancelled 2 False)\<lparr>o_cancelledAt := Some 5\<rparr>)"
    by code_simp
  have b: "parse_status (rq_status (ex_status_req ''confirmed'')) = Some Confirmed"
    by code_simp
  have c: "Confirmed = Cancelled \<longrightarrow>
             o_cancelledAt ((ex_order 7 ''ORD-20261101-00001'' Cancelled 2 False)
                              \<lparr>o_cancelledAt := Some 5\<rparr>) \<noteq> None"
    by simp
  from status_update_assigns_any_status[OF a b c, of ex_env] a b show ?thesis by simp
qed

text \<open>
  The claim as stated fails on a delivered order: a status update to pending is accepted
  and the order is pending again.
\<close>

theorem terminal_status_counterexample:
  "o_status (ex_order 7 ''ORD-20261101-00001'' Delivered 2 False) = Delivered
   \<and> map o_status (orders (snd (update_status ex_env
          \<lparr> products = [ex_product 3],
            orders = [ex_order 7 ''ORD-20261101-00001'' Delivered 2 False] \<rparr>
          7 (ex_status_req ''pending'')))) = [Pending]"
  by code_simp

text \<open>
  Claim C6, amended. In \<^verbatim>\<open>finalPricing\<close>, shipping, tax and discount are 0 when absent
  and the caller's value otherwise. The total is the caller's value when that value is
  not 0; when the total is absent or 0 it is the handler's own subtotal (the sum over the
  items of price times quantity) plus shipping plus tax minus discount.
\<close>

theorem finalPricing_defaults:
  "shipping (finalPricing pr sub) = (case rq_shipping pr of None \<Rightarrow> 0 | Some v \<Rightarrow> v)
   \<and> tax (finalPricing pr sub) = (case rq_tax pr of None \<Rightarrow> 0 | Some v \<Rightarrow> v)
   \<and> discount (finalPricing pr sub) = (case rq_discount pr of None \<Rightarrow> 0 | Some v \<Rightarrow> v)
   \<and> total (finalPricing pr sub) =
       (case rq_total pr of
          None \<Rightarrow> sub + shipping (finalPricing pr sub) + tax (finalPricing pr sub)
                    - discount (finalPricing pr sub)
        | Some t \<Rightarrow> if t = 0
                     then sub + shipping (finalPricing pr sub) + tax (finalPricing pr sub)
                            - discount (finalPricing pr sub)
                     else t)"
  by (simp add: finalPricing_def num_or_def split: option.splits)

text \<open>
  The claim as stated fails for a supplied total of 0: it is not kept, the computed total
  is recorded.
\<close>

theorem supplied_total_counterexample:
  "rq_total \<lparr> rq_subtotal = None, rq_shipping = Some 5, rq_tax = None, rq_discount = None,
              rq_total = Some 0 \<rparr> = Some 0
   \<and> total (finalPricing \<lparr> rq_subtotal = None, rq_shipping = Some 5, rq_tax = None,
                           rq_discount = None, rq_total = Some 0 \<rparr> 20) = 25"
  by (simp add: finalPricing_def num_or_def)

text \<open>
  Claim C7, at the failing input. A test order for one unit of a tracked product with no
  stock passes the stock check, and the order is persisted; then the save of the product
  with stock -1 is rejected by the schema's minimum, the handler answers with the 500
  error, and the stock is still 0.
\<close>

theorem test_order_on_empty_stock:
  "rq_isTest (ex_req True 1 ''card'' None 20)
   \<and> stock_trackInventory (ex_product 0) \<and> stock_quantity (ex_product 0) = 0
   \<and> create_order ex_env 3 (ex_store 0) (ex_req True 1 ''card'' None 20) =
       (Inl ServerError,
        \<lparr> products = [ex_product 0],
          orders = [ex_order 7 ''TEST-20261101-00001'' Pending 1 True] \<rparr>)"
  by code_simp

text \<open>
  Claim C8. A status update whose status is none of pending, confirmed, processing,
  shipped, delivered, cancelled is answered with the invalid-status error, and the store
  (the order's status, every other path of it, and everything else) is left as it was.
\<close>

theorem unrecognised_status_rejected:
  assumes "rq_status req \<notin> set [''pending'', ''confirmed'', ''processing'', ''shipped'',
                                  ''delivered'', ''cancelled'']"
  shows "update_status e st i req = (Inl InvalidStatus, st)"
proof -
  from assms have "parse_status (rq_status req) = None"
    by (simp add: parse_status_def)
  then show ?thesis by (simp add: update_status_def)
qed

theorem unrecognised_status_rejected_witness:
  "rq_status (ex_status_req ''refunded'')
      \<notin> set [''pending'', ''confirmed'', ''processing'', ''shipped'', ''delivered'', ''cancelled'']
   \<and> update_status ex_env
        \<lparr> products = [ex_product 3], orders = [ex_order 7 ''ORD-20261101-00001'' Shipped 2 False] \<rparr>
        7 (ex_status_req ''refunded'')
      = (Inl InvalidStatus,
         \<lparr> products = [ex_product 3], orders = [ex_order 7 ''ORD-20261101-00001'' Shipped 2 False] \<rparr>)"
proof -
  have a: "rq_status (ex_status_req ''refunded'')
      \<notin> set [''pending'', ''confirmed'', ''processing'', ''shipped'', ''delivered'', ''cancelled'']"
    by (simp add: ex_status_req_def)
  from unrecognised_status_rejected[OF a] a show ?thesis by simp
qed

text \<open>
  Claim C9. An order that the creation handler answers with has been added to the
  collection with status pending and payment status pending, whatever payment status the
  request carried; and so has every order that a creation request adds to the collection,
  whatever the answer.
\<close>

theorem created_order_is_pending:
  assumes "create_order e user st req = (r, st')"
  shows "(\<forall>order. r = Inr order \<longrightarrow>
            orders st' = orders st @ [order] \<and> o_status order = Pending
            \<and> pay_status (o_payment order) = PayPending)
       \<and> (\<forall>x \<in> set (orders st') - set (orders st).
            o_status x = Pending \<and> pay_status (o_payment x) = PayPending)"
proof -
  have first: "orders st' = orders st @ [order] \<and> o_status order = Pending
                 \<and> pay_status (o_payment order) = PayPending" if "r = Inr order" for order
  proof -
    from that assms have c: "create_order e user st req = (Inr order, st')" by simp
    from create_order_Inr[OF c] obtain sub ois where
      o: "order = pre_save e (orders st) (new_order e user req sub ois)"
      and os: "orders st' = orders st @ [order]" by blast
    show ?thesis using os by (simp add: o pre_save_fields new_order_def)
  qed
  have second: "o_status x = Pending \<and> pay_status (o_payment x) = PayPending"
    if "x \<in> set (orders st') - set (orders st)" for x
  proof -
    from create_order_added[OF assms] that obtain sub ois where
      "x = pre_save e (orders st) (new_order e user req sub ois)" by auto
    then show ?thesis by (simp add: pre_save_fields new_order_def)
  qed
  from first second show ?thesis by blast
qed

theorem created_order_is_pending_witness:
  "payment_member rq_payStatus (rq_payment (ex_req False 2 ''card'' None 20)) = Some ''paid''
   \<and> fst (create_order ex_env 3 (ex_store 5) (ex_req False 2 ''card'' None 20))
       = Inr (ex_order 7 ''ORD-20261101-00001'' Pending 2 False)
   \<and> orders (snd (create_order ex_env 3 (ex_store 5) (ex_req False 2 ''card'' None 20)))
       = [ex_order 7 ''ORD-20261101-00001'' Pending 2 False]
   \<and> o_status (ex_order 7 ''ORD-20261101-00001'' Pending 2 False) = Pending
   \<and> pay_status (o_payment (ex_order 7 ''ORD-20261101-00001'' Pending 2 False)) = PayPending
   \<and> ex_order 7 ''TEST-20261101-00001'' Pending 1 True
       \<in> set (orders (snd (create_order ex_env 3 (ex_store 0) (ex_req True 1 ''card'' None 20))))
           - set (orders (ex_store 0))
   \<and> o_status (ex_order 7 ''TEST-20261101-00001'' Pending 1 True) = Pending"
proof -
  have p: "payment_member rq_payStatus (rq_payment (ex_req False 2 ''card'' None 20)) = Some ''paid''"
    by (simp add: ex_req_def payment_member_def)
  have m: "ex_order 7 ''TEST-20261101-00001'' Pending 1 True
       \<in> set (orders (snd (create_order ex_env 3 (ex_store 0) (ex_req True 1 ''card'' None 20))))
           - set (orders (ex_store 0))"
    by (simp add: ex_test_order ex_store_sel)
  from created_order_is_pending[OF ex_create_ok] created_order_is_pending[OF ex_test_order] p m
  show ?thesis
    by (simp add: ex_create_ok ex_store_sel ex_order_sel)
qed

text \<open>
  Claim C10. A pricing member that the caller supplies as 0 counts as absent. The order
  that the creation handler answers with is in the collection and records
  \<^verbatim>\<open>finalPricing\<close> of the request; with a supplied subtotal of 0 it records the computed
  subtotal, with a supplied shipping, tax or discount of 0 it records the default 0, and
  with a supplied total of 0 it records the computed subtotal plus shipping plus tax minus
  discount. In each member, \<^verbatim>\<open>finalPricing\<close> of a request with 0 is that of the request
  without the member.
\<close>

theorem zero_component_treated_as_absent:
  assumes "create_order e user st req = (Inr order, st')"
  shows "order \<in> set (orders st')
   \<and> o_pricing order = finalPricing (rq_pricing req) (items_subtotal (products st) (rq_items req))
   \<and> (rq_subtotal (rq_pricing req) = Some 0 \<longrightarrow>
         subtotal (o_pricing order) = items_subtotal (products st) (rq_items req))
   \<and> (rq_shipping (rq_pricing req) = Some 0 \<longrightarrow> shipping (o_pricing order) = 0)
   \<and> (rq_tax (rq_pricing req) = Some 0 \<longrightarrow> tax (o_pricing order) = 0)
   \<and> (rq_discount (rq_pricing req) = Some 0 \<longrightarrow> discount (o_pricing order) = 0)
   \<and> (rq_total (rq_pricing req) = Some 0 \<longrightarrow>
         total (o_pricing order) =
           items_subtotal (products st) (rq_items req) + shipping (o_pricing order)
             + tax (o_pricing order) - discount (o_pricing order))
   \<and> finalPricing ((rq_pricing req)\<lparr>rq_subtotal := Some 0\<rparr>) sub
       = finalPricing ((rq_pricing req)\<lparr>rq_subtotal := None\<rparr>) sub
   \<and> finalPricing ((rq_pricing req)\<lparr>rq_shipping := Some 0\<rparr>) sub
       = finalPricing ((rq_pricing req)\<lparr>rq_shipping := None\<rparr>) sub
   \<and> finalPricing ((rq_pricing req)\<lparr>rq_tax := Some 0\<rparr>) sub
       = finalPricing ((rq_pricing req)\<lparr>rq_tax := None\<rparr>) sub
   \<and> finalPricing ((rq_pricing req)\<lparr>rq_discount := Some 0\<rparr>) sub
       = finalPricing ((rq_pricing req)\<lparr>rq_discount := None\<rparr>) sub
   \<and> finalPricing ((rq_pricing req)\<lparr>rq_total := Some 0\<rparr>) sub
       = finalPricing ((rq_pricing req)\<lparr>rq_total := None\<rparr>) sub"
proof -
  from create_order_Inr[OF assms] obtain s ois where
    v: "validate_items (products st) (rq_isTest req) (rq_items req) 0 [] = Inr (s, ois)"
    and o: "order = pre_save e (orders st) (new_order e user req s ois)"
    and os: "orders st' = orders st @ [order]" by blast
  from validate_items_subtotal[OF v]
  have s: "s = items_subtotal (products st) (rq_items req)" by simp
  have p: "o_pricing order = finalPricing (rq_pricing req) (items_subtotal (products st) (rq_items req))"
    by (simp add: o pre_save_fields new_order_def s)
  have m: "order \<in> set (orders st')" by (simp add: os)
  show ?thesis
    unfolding p using m by (simp add: finalPricing_def num_or_def)
qed

theorem zero_component_treated_as_absent_witness:
  "rq_pricing (ex_req False 2 ''card'' (Some 0) 0)
     = \<lparr> rq_subtotal = Some 0, rq_shipping = Some 0, rq_tax = Some 0, rq_discount = Some 0,
         rq_total = Some 0 \<rparr>
   \<and> fst (create_order ex_env 3 (ex_store 5) (ex_req False 2 ''card'' (Some 0) 0))
       = Inr (ex_order 7 ''ORD-20261101-00001'' Pending 2 False)
   \<and> o_pricing (ex_order 7 ''ORD-20261101-00001'' Pending 2 False)
       = \<lparr> subtotal = 20, shipping = 0, tax = 0, discount = 0, total = 20 \<rparr>
   \<and> items_subtotal (products (ex_store 5)) (rq_items (ex_req False 2 ''card'' (Some 0) 0)) = 20"
proof -
  have a: "rq_pricing (ex_req False 2 ''card'' (Some 0) 0)
     = \<lparr> rq_subtotal = Some 0, rq_shipping = Some 0, rq_tax = Some 0, rq_discount = Some 0,
         rq_total = Some 0 \<rparr>"
    by (simp add: ex_req_def)
  have b: "o_pricing (ex_order 7 ''ORD-20261101-00001'' Pending 2 False)
       = \<lparr> subtotal = 20, shipping = 0, tax = 0, discount = 0, total = 20 \<rparr>"
    by (simp add: ex_order_def)
  from zero_component_treated_as_absent[OF ex_create_zero, of 0] a b show ?thesis
    by (simp add: ex_create_zero finalPricing_def num_or_def)
qed

end
